theory Spec2Isabelle
  imports Main "HOL-Library.Word"
begin

section \<open>DeviceNameHelperRK: the persisted record and the retrieval state machine\<close>

text \<open>
  The development embeds \<^verbatim>\<open>DeviceNameHelperRK.h\<close> and \<^verbatim>\<open>DeviceNameHelperRK.cpp\<close>.
  The target is a 32-bit Particle device: \<^verbatim>\<open>long\<close> and \<^verbatim>\<open>unsigned long\<close> are 32 bits wide
  (the header documents the structure as 44 bytes, which is 4 + 1 + 1 + 2 + 4 + 32), and
  \<^verbatim>\<open>std::chrono::seconds::rep\<close> is a signed 64-bit integer.
\<close>

subsection \<open>C strings in character buffers\<close>

abbreviation NUL :: char where
  "NUL \<equiv> CHR 0x00"

text \<open>The string a \<^verbatim>\<open>const char *\<close> denotes: the characters before the first NUL.\<close>

definition c_str :: "char list \<Rightarrow> string" where
  "c_str buf = takeWhile (\<lambda>c. c \<noteq> NUL) buf"

definition strlen :: "char list \<Rightarrow> nat" where
  "strlen s = length (c_str s)"

text \<open>
  \<^verbatim>\<open>strcpy(dst, src)\<close> writes the characters of \<open>src\<close> and the terminating NUL at the
  front of \<open>dst\<close> and leaves the bytes behind them as they were.
\<close>

definition strcpy :: "char list \<Rightarrow> char list \<Rightarrow> char list" where
  "strcpy dst src = c_str src @ NUL # drop (strlen src + 1) dst"

text \<open>
  \<^verbatim>\<open>strncpy(dst, src, n)\<close> writes exactly \<open>n\<close> bytes: the first \<open>n\<close> characters of
  \<open>src\<close>, padded with NUL when \<open>src\<close> is shorter, and no terminator when it is not.
\<close>

definition strncpy :: "char list \<Rightarrow> char list \<Rightarrow> nat \<Rightarrow> char list" where
  "strncpy dst src n =
     take n (c_str src) @ replicate (n - strlen src) NUL @ drop n dst"

subsection \<open>The persisted record\<close>

definition DEVICENAMEHELPER_MAX_NAME_LEN :: nat where
  "DEVICENAMEHELPER_MAX_NAME_LEN = 31"

text \<open>
  \<^verbatim>\<open>struct DeviceNameHelperData\<close>. The field \<^verbatim>\<open>size\<close> is called \<open>size_d\<close> here;
  \<open>name\<close> is the buffer \<^verbatim>\<open>char name[DEVICENAMEHELPER_MAX_NAME_LEN + 1]\<close>, a list of
  32 characters.
\<close>

record DeviceNameHelperData =
  magic :: "32 word"
  size_d :: "8 word"
  flags :: "8 word"
  reserved :: "16 word"
  lastCheck :: "32 word"
  name :: "char list"

definition DATA_MAGIC :: "32 word" where
  "DATA_MAGIC = 0x7787a2f2"

text \<open>\<^verbatim>\<open>sizeof(DeviceNameHelperData)\<close>: the fields are naturally aligned, so no padding.\<close>

definition sizeof_DeviceNameHelperData :: nat where
  "sizeof_DeviceNameHelperData = 4 + 1 + 1 + 2 + 4 + (DEVICENAMEHELPER_MAX_NAME_LEN + 1)"

text \<open>The record after \<^verbatim>\<open>memset(data, 0, sizeof(DeviceNameHelperData))\<close>.\<close>

definition zeroed :: DeviceNameHelperData where
  "zeroed = \<lparr>magic = 0, size_d = 0, flags = 0, reserved = 0, lastCheck = 0,
             name = replicate (DEVICENAMEHELPER_MAX_NAME_LEN + 1) NUL\<rparr>"

text \<open>The buffer of a record has its declared length.\<close>

definition wf_data :: "DeviceNameHelperData \<Rightarrow> bool" where
  "wf_data d = (length (name d) = DEVICENAMEHELPER_MAX_NAME_LEN + 1)"

subsection \<open>The engine object and its environment\<close>

text \<open>
  The state handler is a \<^verbatim>\<open>std::function\<close> that is either empty or bound to one of the
  seven state methods; \<open>phase\<close> names the method, \<open>None\<close> is the empty function.
\<close>

datatype phase =
  Start | Subscribe | WaitConnected | WaitRequest | WaitResponse | WaitRetry | WaitRecheck

text \<open>
  The calls the engine makes on its collaborators, in the order they happen:
  \<^verbatim>\<open>Particle.subscribe\<close>, \<^verbatim>\<open>Particle.publish\<close>, the virtual \<^verbatim>\<open>save()\<close> (with the record
  as it is at the call) and the name callback (with the string it is passed).
\<close>

datatype event =
  ParticleSubscribe
| ParticlePublish
| SaveCalled DeviceNameHelperData
| NameCallback string

text \<open>
  The members of \<^verbatim>\<open>class DeviceNameHelper\<close>. The pointer \<open>data\<close> is \<open>None\<close> when
  null, and otherwise holds the structure it points to. The callback is user code, taken
  not to call back into the engine: \<open>nameCallback\<close> tells whether one is registered, and
  its invocations are recorded in \<open>log\<close>, the history of collaborator calls (oldest
  first), which is not a member of the class.
\<close>

record DeviceNameHelper =
  data :: "DeviceNameHelperData option"
  checkPeriod :: "64 word"
  nameCallback :: bool
  stateHandler :: "phase option"
  stateTime :: "32 word"
  hasSubscribed :: bool
  gotResponse :: bool
  forceCheck :: bool
  log :: "event list"

text \<open>
  What the platform answers during one call of a state handler: the first and the
  second value returned by \<^verbatim>\<open>millis()\<close> (no handler reads it more often),
  \<^verbatim>\<open>Time.now()\<close> (epoch seconds, as the 32-bit \<^verbatim>\<open>long\<close> that \<open>lastCheck\<close> stores),
  \<^verbatim>\<open>Time.isValid()\<close> and \<^verbatim>\<open>Particle.connected()\<close>.
\<close>

record env =
  millis_1 :: "32 word"
  millis_2 :: "32 word"
  Time_now :: "32 word"
  Time_isValid :: bool
  Particle_connected :: bool

datatype fault = NullPointer

definition POST_CONNECT_WAIT_MS :: "32 word" where
  "POST_CONNECT_WAIT_MS = 2000"

definition RESPONSE_WAIT_MS :: "32 word" where
  "RESPONSE_WAIT_MS = 15000"

definition RETRY_WAIT_MS :: "32 word" where
  "RETRY_WAIT_MS = 5 * 60 * 1000"

text \<open>The object as the member initialisers of the class leave it.\<close>

definition DeviceNameHelper_new :: DeviceNameHelper where
  "DeviceNameHelper_new =
     \<lparr>data = None, checkPeriod = 0, nameCallback = False, stateHandler = None,
      stateTime = 0, hasSubscribed = False, gotResponse = False, forceCheck = False,
      log = []\<rparr>"

subsection \<open>Setup and the accessors\<close>

definition commonSetup :: "DeviceNameHelper \<Rightarrow> fault + DeviceNameHelper" where
  "commonSetup h =
     (case data h of
        None \<Rightarrow> Inl NullPointer
      | Some d \<Rightarrow>
          let d' = (if magic d \<noteq> DATA_MAGIC \<or> unat (size_d d) \<noteq> sizeof_DeviceNameHelperData
                    then zeroed\<lparr>magic := DATA_MAGIC,
                                size_d := of_nat sizeof_DeviceNameHelperData\<rparr>
                    else d)
          in Inr (h\<lparr>data := Some d', stateHandler := Some Start\<rparr>))"

text \<open>\<^verbatim>\<open>DeviceNameHelperRetained::setup(retainedData)\<close>; the pointer may be null.\<close>

definition DeviceNameHelperRetained_setup ::
  "DeviceNameHelper \<Rightarrow> DeviceNameHelperData option \<Rightarrow> fault + DeviceNameHelper" where
  "DeviceNameHelperRetained_setup h retainedData = commonSetup (h\<lparr>data := retainedData\<rparr>)"

definition withNameCallback :: "DeviceNameHelper \<Rightarrow> bool \<Rightarrow> DeviceNameHelper" where
  "withNameCallback h cb = h\<lparr>nameCallback := cb\<rparr>"

definition withCheckPeriod :: "DeviceNameHelper \<Rightarrow> 64 word \<Rightarrow> DeviceNameHelper" where
  "withCheckPeriod h p = h\<lparr>checkPeriod := p\<rparr>"

definition hasName :: "DeviceNameHelper \<Rightarrow> bool" where
  "hasName h = (case data h of None \<Rightarrow> False | Some d \<Rightarrow> name d ! 0 \<noteq> NUL)"

text \<open>
  \<^verbatim>\<open>getName()\<close> returns a \<^verbatim>\<open>const char *\<close>: \<open>None\<close> would be the null pointer,
  \<open>Some buf\<close> a pointer to the characters \<open>buf\<close> (the literal \<^verbatim>\<open>""\<close> is one NUL).
\<close>

definition getName :: "DeviceNameHelper \<Rightarrow> char list option" where
  "getName h = (case data h of None \<Rightarrow> Some [NUL] | Some d \<Rightarrow> Some (name d))"

definition getLastNameCheckTime :: "DeviceNameHelper \<Rightarrow> 32 word" where
  "getLastNameCheckTime h = (case data h of None \<Rightarrow> 0 | Some d \<Rightarrow> lastCheck d)"

definition checkName :: "DeviceNameHelper \<Rightarrow> DeviceNameHelper" where
  "checkName h =
     (if stateHandler h = None then h\<lparr>stateHandler := Some Subscribe\<rparr>
      else h\<lparr>forceCheck := True\<rparr>)"

definition subscriptionRemoved :: "DeviceNameHelper \<Rightarrow> DeviceNameHelper" where
  "subscriptionRemoved h = h\<lparr>hasSubscribed := False\<rparr>"

subsection \<open>The state handlers\<close>

text \<open>
  \<^verbatim>\<open>if (nameCallback) { nameCallback(data->name); }\<close>. The callback is handed the
  pointer \<^verbatim>\<open>data->name\<close>; the history records the C string at that address, which is
  \<open>c_str (name d)\<close> when the buffer contains a NUL. A record that setup loaded from
  storage is checked for magic and size only, so its buffer may hold no NUL; a callback
  reading that pointer as a string then runs past the structure, and the recorded string
  does not describe what it reads. Statements about the string passed for such a record
  therefore assume \<open>NUL \<in> set (name d)\<close>. Once \<^verbatim>\<open>subscriptionHandler\<close> has written
  the name the buffer is terminated (\<open>subscriptionHandler_terminated\<close>).
\<close>

definition callNameCallback :: "DeviceNameHelper \<Rightarrow> DeviceNameHelperData \<Rightarrow> DeviceNameHelper" where
  "callNameCallback h d =
     (if nameCallback h then h\<lparr>log := log h @ [NameCallback (c_str (name d))]\<rparr> else h)"

definition stateStart :: "DeviceNameHelper \<Rightarrow> env \<Rightarrow> fault + DeviceNameHelper" where
  "stateStart h e =
     (case data h of
        None \<Rightarrow> Inl NullPointer
      | Some d \<Rightarrow>
          if name d ! 0 \<noteq> NUL
          then Inr ((callNameCallback h d)\<lparr>stateHandler := Some WaitRecheck,
                                           stateTime := millis_1 e\<rparr>)
          else Inr (h\<lparr>stateHandler := Some Subscribe\<rparr>))"

definition stateSubscribe :: "DeviceNameHelper \<Rightarrow> env \<Rightarrow> fault + DeviceNameHelper" where
  "stateSubscribe h e =
     (let h1 = (if \<not> hasSubscribed h
                then h\<lparr>log := log h @ [ParticleSubscribe], hasSubscribed := True\<rparr>
                else h)
      in Inr (h1\<lparr>stateHandler := Some WaitConnected\<rparr>))"

definition stateWaitConnected :: "DeviceNameHelper \<Rightarrow> env \<Rightarrow> fault + DeviceNameHelper" where
  "stateWaitConnected h e =
     (if \<not> Particle_connected e \<or> \<not> Time_isValid e then Inr h
      else Inr (h\<lparr>stateHandler := Some WaitRequest, stateTime := millis_1 e\<rparr>))"

definition stateWaitRequest :: "DeviceNameHelper \<Rightarrow> env \<Rightarrow> fault + DeviceNameHelper" where
  "stateWaitRequest h e =
     (if millis_1 e - stateTime h < POST_CONNECT_WAIT_MS then Inr h
      else Inr (h\<lparr>gotResponse := False, log := log h @ [ParticlePublish],
                  stateHandler := Some WaitResponse, stateTime := millis_2 e\<rparr>))"

definition stateWaitResponse :: "DeviceNameHelper \<Rightarrow> env \<Rightarrow> fault + DeviceNameHelper" where
  "stateWaitResponse h e =
     (if gotResponse h then
        (case data h of
           None \<Rightarrow> Inl NullPointer
         | Some d \<Rightarrow>
             if name d ! 0 \<noteq> NUL then
               (let d' = d\<lparr>lastCheck := Time_now e\<rparr>;
                    h1 = h\<lparr>data := Some d'\<rparr>;
                    h2 = h1\<lparr>log := log h1 @ [SaveCalled d']\<rparr>;
                    h3 = callNameCallback h2 d'
                in Inr (h3\<lparr>stateHandler := Some WaitRecheck, stateTime := millis_1 e\<rparr>))
             else Inr (h\<lparr>stateHandler := Some WaitRetry, stateTime := millis_1 e\<rparr>))
      else if RESPONSE_WAIT_MS \<le> millis_1 e - stateTime h
      then Inr (h\<lparr>stateHandler := Some WaitRetry, stateTime := millis_2 e\<rparr>)
      else Inr h)"

definition stateWaitRetry :: "DeviceNameHelper \<Rightarrow> env \<Rightarrow> fault + DeviceNameHelper" where
  "stateWaitRetry h e =
     (if RETRY_WAIT_MS \<le> millis_1 e - stateTime h
      then Inr (h\<lparr>stateHandler := Some WaitConnected\<rparr>)
      else Inr h)"

text \<open>
  In \<^verbatim>\<open>(data->lastCheck + checkPeriod.count()) < Time.now()\<close> the 32-bit \<^verbatim>\<open>long\<close> is
  converted to the 64-bit type of the count, the sum is a signed 64-bit value (written
  here as the two's complement sum), and both sides are compared as signed integers.
\<close>

definition recheckDue :: "DeviceNameHelperData \<Rightarrow> 64 word \<Rightarrow> 32 word \<Rightarrow> bool" where
  "recheckDue d period now = (sint (scast (lastCheck d) + period :: 64 word) < sint now)"

definition stateWaitRecheck :: "DeviceNameHelper \<Rightarrow> env \<Rightarrow> fault + DeviceNameHelper" where
  "stateWaitRecheck h e =
     (if millis_1 e - stateTime h < 10000 then Inr h
      else
        let h1 = h\<lparr>stateTime := millis_2 e\<rparr> in
        if forceCheck h1 then Inr (h1\<lparr>forceCheck := False, stateHandler := Some Subscribe\<rparr>)
        else if checkPeriod h1 = 0 then Inr (h1\<lparr>stateHandler := None\<rparr>)
        else if Time_isValid e then
          (case data h1 of
             None \<Rightarrow> Inl NullPointer
           | Some d \<Rightarrow>
               if recheckDue d (checkPeriod h1) (Time_now e)
               then Inr (h1\<lparr>stateHandler := Some Subscribe\<rparr>)
               else Inr h1)
        else Inr h1)"

fun dispatch :: "phase \<Rightarrow> DeviceNameHelper \<Rightarrow> env \<Rightarrow> fault + DeviceNameHelper" where
  "dispatch Start = stateStart"
| "dispatch Subscribe = stateSubscribe"
| "dispatch WaitConnected = stateWaitConnected"
| "dispatch WaitRequest = stateWaitRequest"
| "dispatch WaitResponse = stateWaitResponse"
| "dispatch WaitRetry = stateWaitRetry"
| "dispatch WaitRecheck = stateWaitRecheck"

text \<open>\<^verbatim>\<open>loop()\<close>: one tick.\<close>

definition loop :: "DeviceNameHelper \<Rightarrow> env \<Rightarrow> fault + DeviceNameHelper" where
  "loop h e = (case stateHandler h of None \<Rightarrow> Inr h | Some p \<Rightarrow> dispatch p h e)"

text \<open>
  The platform calls \<^verbatim>\<open>subscriptionHandler\<close> with two C strings; \<open>eventData\<close> is the
  memory the second one points to, read up to its first NUL.
\<close>

definition subscriptionHandler ::
  "DeviceNameHelper \<Rightarrow> char list \<Rightarrow> char list \<Rightarrow> fault + DeviceNameHelper" where
  "subscriptionHandler h eventName eventData =
     (case data h of
        None \<Rightarrow> Inl NullPointer
      | Some d \<Rightarrow>
          let nm = (if strlen eventData < DEVICENAMEHELPER_MAX_NAME_LEN
                    then strcpy (name d) eventData
                    else (strncpy (name d) eventData DEVICENAMEHELPER_MAX_NAME_LEN)
                           [DEVICENAMEHELPER_MAX_NAME_LEN := NUL])
          in Inr (h\<lparr>data := Some (d\<lparr>name := nm\<rparr>), gotResponse := True\<rparr>))"

subsection \<open>Executions\<close>

text \<open>
  What the application and the platform can do to the engine once \<^verbatim>\<open>setup()\<close> has run:
  tick it, call its public methods, deliver an event. An execution is a list of these
  and ends at the first fault (a dereference of the null \<open>data\<close> pointer).
\<close>

datatype op =
  Loop env
| CheckName
| SubscriptionRemoved
| SubscriptionHandler "char list" "char list"
| WithCheckPeriod "64 word"
| WithNameCallback bool

fun step :: "DeviceNameHelper \<Rightarrow> op \<Rightarrow> fault + DeviceNameHelper" where
  "step h (Loop e) = loop h e"
| "step h CheckName = Inr (checkName h)"
| "step h SubscriptionRemoved = Inr (subscriptionRemoved h)"
| "step h (SubscriptionHandler eventName eventData) = subscriptionHandler h eventName eventData"
| "step h (WithCheckPeriod p) = Inr (withCheckPeriod h p)"
| "step h (WithNameCallback cb) = Inr (withNameCallback h cb)"

fun run :: "DeviceNameHelper \<Rightarrow> op list \<Rightarrow> fault + DeviceNameHelper" where
  "run h [] = Inr h"
| "run h (x # xs) = (case step h x of Inl f \<Rightarrow> Inl f | Inr h' \<Rightarrow> run h' xs)"

text \<open>The number of \<^verbatim>\<open>Particle.subscribe\<close> calls in a history.\<close>

definition subscribeCalls :: "event list \<Rightarrow> nat" where
  "subscribeCalls evs = length (filter (\<lambda>ev. ev = ParticleSubscribe) evs)"

text \<open>
  The \<^verbatim>\<open>Particle.subscribe\<close> calls made so far plus the one still to come while the
  subscribed flag is clear; no operation but \<^verbatim>\<open>subscriptionRemoved()\<close> changes it.
\<close>

definition pendingSubscribe :: "DeviceNameHelper \<Rightarrow> nat" where
  "pendingSubscribe h = subscribeCalls (log h) + (if hasSubscribed h then 0 else 1)"

text \<open>Every record the engine points to has a buffer of the declared length.\<close>

definition wf_helper :: "DeviceNameHelper \<Rightarrow> bool" where
  "wf_helper h = (case data h of None \<Rightarrow> True | Some d \<Rightarrow> wf_data d)"

section \<open>Properties\<close>

subsection \<open>Auxiliary facts\<close>

lemma unat_size_44: "unat (w :: 8 word) = 44 \<longleftrightarrow> w = 44"
proof
  assume "unat w = 44"
  then have "of_nat (unat w) = (of_nat 44 :: 8 word)" by simp
  then show "w = 44" by simp
next
  assume "w = 44" then show "unat w = 44" by simp
qed

lemma sizeof_44: "sizeof_DeviceNameHelperData = 44"
  by (simp add: sizeof_DeviceNameHelperData_def DEVICENAMEHELPER_MAX_NAME_LEN_def)

lemma c_str_zeroed: "c_str (replicate n NUL) = []"
  by (cases n) (simp_all add: c_str_def)

lemma c_str_Nil: "c_str [] = []"
  by (simp add: c_str_def)

lemma c_str_Cons: "c_str (c # cs) = (if c = NUL then [] else c # c_str cs)"
  by (simp add: c_str_def)

lemmas c_str_eval = c_str_Nil c_str_Cons c_str_zeroed

lemmas handler_defs = stateStart_def stateSubscribe_def stateWaitConnected_def
  stateWaitRequest_def stateWaitResponse_def stateWaitRetry_def stateWaitRecheck_def

lemma NUL_notin_c_str: "NUL \<notin> set (c_str s)"
  using set_takeWhileD [of NUL "\<lambda>c. c \<noteq> NUL" s] by (auto simp: c_str_def)

lemma NUL_notin_take_c_str: "NUL \<notin> set (take n (c_str s))"
  using NUL_notin_c_str [of s] by (auto dest: in_set_takeD)

lemma c_str_terminated:
  assumes "NUL \<notin> set s"
  shows "c_str (s @ NUL # r) = s"
  using assms by (induction s) (auto simp: c_str_def)

lemma strlen_0_c_str: "strlen s = 0 \<Longrightarrow> c_str s = []"
  by (simp add: strlen_def)

lemma strcpy_fits:
  assumes "strlen src < length dst"
  shows "length (strcpy dst src) = length dst" and "c_str (strcpy dst src) = c_str src"
  using assms by (simp_all add: strcpy_def strlen_def c_str_terminated NUL_notin_c_str)

lemma strncpy_truncates:
  assumes "n \<le> strlen src" and "length dst = Suc n"
  shows "(strncpy dst src n)[n := NUL] = take n (c_str src) @ [NUL]"
proof -
  have len: "length (take n (c_str src)) = n"
    using assms(1) by (simp add: strlen_def)
  have "length (drop n dst) = 1"
    using assms(2) by simp
  then obtain x where x: "drop n dst = [x]"
    by (cases "drop n dst") auto
  have "strncpy dst src n = take n (c_str src) @ [x]"
    using assms(1) x by (simp add: strncpy_def)
  then show ?thesis
    using len by (simp add: list_update_append)
qed

lemma sint_scast_32_64: "sint (scast (w :: 32 word) :: 64 word) = sint w"
  by (rule sint_up_scast) (simp add: is_up)

lemma sint32_bounds: "- (2 ^ 31) \<le> sint (w :: 32 word) \<and> sint w < 2 ^ 31"
  using sint_ge [of w] sint_lt [of w] by simp

lemma recheckDue_exact:
  assumes "- (2 ^ 63) \<le> sint (lastCheck d) + sint p" and "sint (lastCheck d) + sint p < 2 ^ 63"
  shows "recheckDue d p now \<longleftrightarrow> sint (lastCheck d) + sint p < sint now"
proof -
  have "sint (scast (lastCheck d) + p :: 64 word) = sint (lastCheck d) + sint p"
    using assms by (simp add: sint_word_add sint_scast_32_64 signed_take_bit_int_eq_self)
  then show ?thesis by (simp add: recheckDue_def)
qed

lemma recheckDue_positive_period:
  assumes "0 < sint p" and "sint (lastCheck d) + sint p \<le> sint now"
  shows "recheckDue d p now \<longleftrightarrow> sint (lastCheck d) + sint p < sint now"
proof (rule recheckDue_exact)
  show "- (2 ^ 63) \<le> sint (lastCheck d) + sint p"
    using assms(1) sint32_bounds [of "lastCheck d"] by simp
  show "sint (lastCheck d) + sint p < 2 ^ 63"
    using assms(2) sint32_bounds [of now] by simp
qed

lemma dispatch_forceCheck_irrelevant:
  assumes "p \<noteq> WaitRecheck"
  shows "dispatch p (h\<lparr>forceCheck := b\<rparr>) e = map_sum id (\<lambda>h'. h'\<lparr>forceCheck := b\<rparr>) (dispatch p h e)"
  using assms
  by (cases p) (simp_all add: handler_defs callNameCallback_def Let_def split: option.splits)

lemma stateWaitRecheck_early:
  "millis_1 e - stateTime h < 10000 \<Longrightarrow> stateWaitRecheck h e = Inr h"
  by (simp add: stateWaitRecheck_def)

lemma loop_forceCheck_irrelevant:
  assumes "stateHandler h \<noteq> Some WaitRecheck \<or> millis_1 e - stateTime h < 10000"
  shows "loop (h\<lparr>forceCheck := b\<rparr>) e = map_sum id (\<lambda>h'. h'\<lparr>forceCheck := b\<rparr>) (loop h e)"
proof (cases "stateHandler h")
  case None
  then show ?thesis by (simp add: loop_def)
next
  case (Some p)
  show ?thesis
  proof (cases "p = WaitRecheck")
    case True
    with Some assms have "millis_1 e - stateTime h < 10000" by simp
    with Some True show ?thesis by (simp add: loop_def stateWaitRecheck_early)
  next
    case False
    with Some show ?thesis by (simp add: loop_def dispatch_forceCheck_irrelevant)
  qed
qed

lemma stateWaitRecheck_forced:
  assumes "forceCheck h" and "10000 \<le> millis_1 e - stateTime h"
  shows "stateWaitRecheck h e =
           Inr (h\<lparr>stateTime := millis_2 e, forceCheck := False, stateHandler := Some Subscribe\<rparr>)"
  using assms by (simp add: stateWaitRecheck_def Let_def not_less [symmetric])

lemma subscribeCalls_append [simp]:
  "subscribeCalls (xs @ ys) = subscribeCalls xs + subscribeCalls ys"
  by (simp add: subscribeCalls_def)

lemma subscribeCalls_Nil [simp]: "subscribeCalls [] = 0"
  by (simp add: subscribeCalls_def)

lemma subscribeCalls_Cons [simp]:
  "subscribeCalls (ev # evs) = (if ev = ParticleSubscribe then 1 else 0) + subscribeCalls evs"
  by (simp add: subscribeCalls_def)

lemma dispatch_pendingSubscribe:
  assumes "dispatch p h e = Inr h'"
  shows "pendingSubscribe h' = pendingSubscribe h"
  using assms
  by (cases p)
    (auto simp: handler_defs callNameCallback_def pendingSubscribe_def Let_def
      split: option.splits if_splits)

lemma step_pendingSubscribe:
  assumes "step h x = Inr h'" and "x \<noteq> SubscriptionRemoved"
  shows "pendingSubscribe h' = pendingSubscribe h"
proof (cases x)
  case (Loop e)
  with assms(1) show ?thesis
    by (auto simp: loop_def dispatch_pendingSubscribe split: option.splits)
next
  case (SubscriptionHandler eventName eventData)
  with assms(1) show ?thesis
    by (auto simp: subscriptionHandler_def pendingSubscribe_def Let_def split: option.splits)
next
  case CheckName
  with assms(1) show ?thesis
    by (cases "stateHandler h") (auto simp: checkName_def pendingSubscribe_def)
qed (use assms in \<open>auto simp: withCheckPeriod_def withNameCallback_def pendingSubscribe_def\<close>)

lemma run_pendingSubscribe:
  assumes "run h ops = Inr h'" and "SubscriptionRemoved \<notin> set ops"
  shows "pendingSubscribe h' = pendingSubscribe h"
  using assms
proof (induction ops arbitrary: h)
  case Nil
  then show ?case by simp
next
  case (Cons x xs)
  from Cons.prems(1) obtain h1 where h1: "step h x = Inr h1" and rest: "run h1 xs = Inr h'"
    by (auto split: sum.splits)
  from Cons.prems(2) have "x \<noteq> SubscriptionRemoved" and "SubscriptionRemoved \<notin> set xs"
    by auto
  then show ?case
    using Cons.IH [OF rest] step_pendingSubscribe [OF h1] by simp
qed

lemma step_idle:
  assumes "stateHandler h = None" and "data h \<noteq> None" and "x \<noteq> CheckName"
  shows "\<exists>h'. step h x = Inr h' \<and> stateHandler h' = None \<and> data h' \<noteq> None \<and> log h' = log h"
  using assms
  by (cases x)
    (auto simp: loop_def subscriptionHandler_def subscriptionRemoved_def withCheckPeriod_def
      withNameCallback_def Let_def)

lemma run_idle:
  assumes "stateHandler h = None" and "data h \<noteq> None" and "CheckName \<notin> set ops"
  shows "\<exists>h'. run h ops = Inr h' \<and> stateHandler h' = None \<and> log h' = log h"
  using assms
proof (induction ops arbitrary: h)
  case Nil
  then show ?case by simp
next
  case (Cons x xs)
  from Cons.prems have "x \<noteq> CheckName" and xs: "CheckName \<notin> set xs"
    by auto
  with Cons.prems(1,2) obtain h1 where h1: "step h x = Inr h1" "stateHandler h1 = None"
      "data h1 \<noteq> None" "log h1 = log h"
    using step_idle by blast
  from Cons.IH [OF h1(2,3) xs] obtain h' where "run h1 xs = Inr h'" "stateHandler h' = None"
      "log h' = log h1"
    by blast
  with h1 show ?case by simp
qed

lemmas run_eval = loop_def handler_defs callNameCallback_def checkName_def subscriptionHandler_def
  subscriptionRemoved_def withCheckPeriod_def withNameCallback_def strcpy_def strncpy_def
  strlen_def c_str_eval recheckDue_def Let_def DEVICENAMEHELPER_MAX_NAME_LEN_def
  POST_CONNECT_WAIT_MS_def RESPONSE_WAIT_MS_def RETRY_WAIT_MS_def

text \<open>Setup and every operation keep the name buffer at its declared length.\<close>

lemma commonSetup_wf:
  assumes "wf_helper h" and "commonSetup h = Inr h'"
  shows "wf_helper h'"
  using assms
  by (auto simp: commonSetup_def wf_helper_def wf_data_def zeroed_def Let_def
      split: option.splits if_splits)

lemma subscriptionHandler_wf:
  assumes "wf_helper h" and "subscriptionHandler h eventName eventData = Inr h'"
  shows "wf_helper h'"
proof -
  from assms(2) obtain d where d: "data h = Some d"
    by (auto simp: subscriptionHandler_def split: option.splits)
  with assms(1) have len: "length (name d) = Suc 31"
    by (simp add: wf_helper_def wf_data_def DEVICENAMEHELPER_MAX_NAME_LEN_def)
  show ?thesis
  proof (cases "strlen eventData < 31")
    case True
    with len have "length (strcpy (name d) eventData) = 32"
      using strcpy_fits(1) [of eventData "name d"] by simp
    with assms(2) d True show ?thesis
      by (auto simp: subscriptionHandler_def wf_helper_def wf_data_def
          DEVICENAMEHELPER_MAX_NAME_LEN_def)
  next
    case False
    then have "(strncpy (name d) eventData 31)[31 := NUL] = take 31 (c_str eventData) @ [NUL]"
      using len by (intro strncpy_truncates) simp_all
    moreover have "length (take 31 (c_str eventData)) = 31"
      using False by (simp add: strlen_def)
    ultimately have "length ((strncpy (name d) eventData 31)[31 := NUL]) = 32"
      by simp
    with assms(2) d False show ?thesis
      by (auto simp: subscriptionHandler_def wf_helper_def wf_data_def
          DEVICENAMEHELPER_MAX_NAME_LEN_def)
  qed
qed

lemma subscriptionHandler_terminated:
  assumes "wf_helper h" and "subscriptionHandler h eventName eventData = Inr h'"
  shows "\<exists>d'. data h' = Some d' \<and> NUL \<in> set (name d')"
proof -
  from assms(2) obtain d where d: "data h = Some d"
    by (auto simp: subscriptionHandler_def split: option.splits)
  with assms(1) have len: "length (name d) = Suc 31"
    by (simp add: wf_helper_def wf_data_def DEVICENAMEHELPER_MAX_NAME_LEN_def)
  show ?thesis
  proof (cases "strlen eventData < 31")
    case True
    have "NUL \<in> set (strcpy (name d) eventData)"
      by (simp add: strcpy_def)
    with assms(2) d True show ?thesis
      by (auto simp: subscriptionHandler_def DEVICENAMEHELPER_MAX_NAME_LEN_def)
  next
    case False
    then have "(strncpy (name d) eventData 31)[31 := NUL] = take 31 (c_str eventData) @ [NUL]"
      using len by (intro strncpy_truncates) simp_all
    then have "NUL \<in> set ((strncpy (name d) eventData 31)[31 := NUL])"
      by simp
    with assms(2) d False show ?thesis
      by (auto simp: subscriptionHandler_def DEVICENAMEHELPER_MAX_NAME_LEN_def)
  qed
qed

lemma dispatch_wf:
  assumes "wf_helper h" and "dispatch p h e = Inr h'"
  shows "wf_helper h'"
  using assms
  by (cases p)
    (auto simp: handler_defs callNameCallback_def wf_helper_def wf_data_def Let_def
      split: option.splits if_splits)

lemma step_wf:
  assumes "wf_helper h" and "step h x = Inr h'"
  shows "wf_helper h'"
proof (cases x)
  case (Loop e)
  show ?thesis
  proof (cases "stateHandler h")
    case None
    with Loop assms show ?thesis by (simp add: loop_def)
  next
    case (Some p)
    with Loop assms(2) have "dispatch p h e = Inr h'" by (simp add: loop_def)
    with assms(1) show ?thesis by (rule dispatch_wf)
  qed
next
  case (SubscriptionHandler eventName eventData)
  with assms show ?thesis
    by (auto dest: subscriptionHandler_wf)
qed (use assms in \<open>auto simp: checkName_def subscriptionRemoved_def withCheckPeriod_def
      withNameCallback_def wf_helper_def split: if_splits\<close>)

lemma run_wf:
  assumes "wf_helper h" and "run h ops = Inr h'"
  shows "wf_helper h'"
  using assms
proof (induction ops arbitrary: h)
  case Nil
  then show ?case by simp
next
  case (Cons x xs)
  from Cons.prems(2) obtain h1 where "step h x = Inr h1" and "run h1 xs = Inr h'"
    by (auto split: sum.splits)
  with Cons.prems(1) Cons.IH show ?case
    by (blast intro: step_wf)
qed

subsection \<open>The fetch cycle\<close>

text \<open>
  C1. A tick in WaitResponse with the response flag set and a non-empty name stores
  \<^verbatim>\<open>Time.now()\<close> in \<open>lastCheck\<close>, then calls \<^verbatim>\<open>save()\<close> (which sees the record with the
  new \<open>lastCheck\<close>), then calls the name callback, if one is registered, with the stored
  name, and moves to WaitRecheck. The history grows by exactly these calls, in this order.
\<close>

theorem stateWaitResponse_update_save_notify:
  assumes "stateHandler h = Some WaitResponse" and "gotResponse h"
    and "data h = Some d" and "name d ! 0 \<noteq> NUL"
  shows "loop h e =
           Inr (h\<lparr>data := Some (d\<lparr>lastCheck := Time_now e\<rparr>),
                  log := log h @ SaveCalled (d\<lparr>lastCheck := Time_now e\<rparr>)
                           # (if nameCallback h then [NameCallback (c_str (name d))] else []),
                  stateHandler := Some WaitRecheck,
                  stateTime := millis_1 e\<rparr>)"
  using assms
  by (simp add: loop_def stateWaitResponse_def callNameCallback_def Let_def)

theorem stateWaitResponse_update_save_notify_witness:
  "loop \<lparr>data = Some \<lparr>magic = 0x7787a2f2, size_d = 44, flags = 0, reserved = 0,
                      lastCheck = 0, name = ''kitchen'' @ replicate 25 NUL\<rparr>,
         checkPeriod = 0, nameCallback = True, stateHandler = Some WaitResponse,
         stateTime = 4000, hasSubscribed = True, gotResponse = True, forceCheck = False,
         log = [ParticleSubscribe, ParticlePublish]\<rparr>
        \<lparr>millis_1 = 4500, millis_2 = 4501, Time_now = 1700000000, Time_isValid = True,
         Particle_connected = True\<rparr>
   = Inr \<lparr>data = Some \<lparr>magic = 0x7787a2f2, size_d = 44, flags = 0, reserved = 0,
                        lastCheck = 1700000000, name = ''kitchen'' @ replicate 25 NUL\<rparr>,
          checkPeriod = 0, nameCallback = True, stateHandler = Some WaitRecheck,
          stateTime = 4500, hasSubscribed = True, gotResponse = True, forceCheck = False,
          log = [ParticleSubscribe, ParticlePublish,
                 SaveCalled \<lparr>magic = 0x7787a2f2, size_d = 44, flags = 0, reserved = 0,
                             lastCheck = 1700000000, name = ''kitchen'' @ replicate 25 NUL\<rparr>,
                 NameCallback ''kitchen'']\<rparr>"
proof -
  let ?d = "\<lparr>magic = 0x7787a2f2, size_d = 44, flags = 0, reserved = 0,
             lastCheck = 0, name = ''kitchen'' @ replicate 25 NUL\<rparr>"
  let ?h = "\<lparr>data = Some ?d,
         checkPeriod = 0, nameCallback = True, stateHandler = Some WaitResponse,
         stateTime = 4000, hasSubscribed = True, gotResponse = True, forceCheck = False,
         log = [ParticleSubscribe, ParticlePublish]\<rparr>"
  let ?e = "\<lparr>millis_1 = 4500, millis_2 = 4501, Time_now = 1700000000, Time_isValid = True,
         Particle_connected = True\<rparr>"
  have "stateHandler ?h = Some WaitResponse" and "gotResponse ?h" and "data ?h = Some ?d"
    and "name ?d ! 0 \<noteq> NUL"
    by simp_all
  from stateWaitResponse_update_save_notify [OF this, of ?e] show ?thesis
    by (simp add: c_str_eval)
qed

subsection \<open>Validation of the record in setup\<close>

text \<open>
  C2. When the magic differs from \<^verbatim>\<open>0x7787a2f2\<close> or the size field differs from 44,
  \<^verbatim>\<open>commonSetup\<close> replaces the record by the zeroed record stamped with the magic and
  the size, whatever the other fields held: its name buffer is 32 NUL bytes, so the name
  is empty, and \<open>lastCheck\<close> is 0. When both match, the record is left as it is. In
  both cases the state handler becomes \<^verbatim>\<open>stateStart\<close>.
\<close>

theorem commonSetup_validates:
  assumes "data h = Some d"
  shows "(magic d \<noteq> 0x7787a2f2 \<or> size_d d \<noteq> 44 \<longrightarrow>
           commonSetup h =
             Inr (h\<lparr>data := Some \<lparr>magic = 0x7787a2f2, size_d = 44, flags = 0, reserved = 0,
                                    lastCheck = 0, name = replicate 32 NUL\<rparr>,
                    stateHandler := Some Start\<rparr>)
           \<and> c_str (replicate 32 NUL) = [])
       \<and> (magic d = 0x7787a2f2 \<and> size_d d = 44 \<longrightarrow>
           commonSetup h = Inr (h\<lparr>stateHandler := Some Start\<rparr>))"
proof (intro conjI impI)
  assume bad: "magic d \<noteq> 0x7787a2f2 \<or> size_d d \<noteq> 44"
  then have "magic d \<noteq> DATA_MAGIC \<or> unat (size_d d) \<noteq> sizeof_DeviceNameHelperData"
    by (simp add: DATA_MAGIC_def sizeof_44 unat_size_44)
  then show "commonSetup h =
             Inr (h\<lparr>data := Some \<lparr>magic = 0x7787a2f2, size_d = 44, flags = 0, reserved = 0,
                                    lastCheck = 0, name = replicate 32 NUL\<rparr>,
                    stateHandler := Some Start\<rparr>)"
    using assms
    by (simp add: commonSetup_def zeroed_def DATA_MAGIC_def sizeof_44
        DEVICENAMEHELPER_MAX_NAME_LEN_def)
next
  show "c_str (replicate 32 NUL) = []" by (rule c_str_zeroed)
next
  assume ok: "magic d = 0x7787a2f2 \<and> size_d d = 44"
  then have "\<not> (magic d \<noteq> DATA_MAGIC \<or> unat (size_d d) \<noteq> sizeof_DeviceNameHelperData)"
    by (simp add: DATA_MAGIC_def sizeof_44)
  moreover have "h\<lparr>data := Some d\<rparr> = h" using assms by simp
  ultimately show "commonSetup h = Inr (h\<lparr>stateHandler := Some Start\<rparr>)"
    using assms by (simp add: commonSetup_def)
qed

theorem commonSetup_validates_witness:
  "commonSetup (DeviceNameHelper_new\<lparr>data := Some \<lparr>magic = 0xFFFFFFFF, size_d = 44, flags = 7,
        reserved = 9, lastCheck = 1234, name = ''garbage''\<rparr>\<rparr>)
     = Inr (DeviceNameHelper_new\<lparr>data := Some \<lparr>magic = 0x7787a2f2, size_d = 44, flags = 0,
        reserved = 0, lastCheck = 0, name = replicate 32 NUL\<rparr>, stateHandler := Some Start\<rparr>)
   \<and> commonSetup (DeviceNameHelper_new\<lparr>data := Some \<lparr>magic = 0x7787a2f2, size_d = 44, flags = 0,
        reserved = 0, lastCheck = 1234, name = ''kitchen'' @ replicate 25 NUL\<rparr>\<rparr>)
     = Inr (DeviceNameHelper_new\<lparr>data := Some \<lparr>magic = 0x7787a2f2, size_d = 44, flags = 0,
        reserved = 0, lastCheck = 1234, name = ''kitchen'' @ replicate 25 NUL\<rparr>,
        stateHandler := Some Start\<rparr>)"
  using commonSetup_validates [of "DeviceNameHelper_new\<lparr>data := Some \<lparr>magic = 0xFFFFFFFF,
        size_d = 44, flags = 7, reserved = 9, lastCheck = 1234, name = ''garbage''\<rparr>\<rparr>"
        "\<lparr>magic = 0xFFFFFFFF, size_d = 44, flags = 7, reserved = 9, lastCheck = 1234,
          name = ''garbage''\<rparr>"]
    commonSetup_validates [of "DeviceNameHelper_new\<lparr>data := Some \<lparr>magic = 0x7787a2f2,
        size_d = 44, flags = 0, reserved = 0, lastCheck = 1234,
        name = ''kitchen'' @ replicate 25 NUL\<rparr>\<rparr>"
        "\<lparr>magic = 0x7787a2f2, size_d = 44, flags = 0, reserved = 0, lastCheck = 1234,
          name = ''kitchen'' @ replicate 25 NUL\<rparr>"]
  by (simp add: DeviceNameHelper_new_def)

subsection \<open>The subscription handler\<close>

text \<open>
  C3. The subscription handler stores a payload longer than 31 characters as its
  first 31 characters followed by NUL, and a payload of at most 31 characters unchanged.
  In both cases the buffer keeps its 32 bytes, contains a NUL, and the stored string has
  at most 31 characters.
\<close>

theorem subscriptionHandler_stores_truncated_name:
  assumes "data h = Some d" and "wf_data d"
  shows "\<exists>nm. subscriptionHandler h eventName eventData
                = Inr (h\<lparr>data := Some (d\<lparr>name := nm\<rparr>), gotResponse := True\<rparr>)
            \<and> length nm = 32
            \<and> (31 < strlen eventData \<longrightarrow> nm = take 31 (c_str eventData) @ [NUL])
            \<and> (strlen eventData \<le> 31 \<longrightarrow> c_str nm = c_str eventData)
            \<and> c_str nm = take 31 (c_str eventData)
            \<and> NUL \<in> set nm \<and> length (c_str nm) \<le> 31"
proof -
  have len: "length (name d) = 32"
    using assms(2) by (simp add: wf_data_def DEVICENAMEHELPER_MAX_NAME_LEN_def)
  show ?thesis
  proof (cases "strlen eventData < 31")
    case True
    let ?nm = "strcpy (name d) eventData"
    have fits: "strlen eventData < length (name d)"
      using True len by simp
    have a: "subscriptionHandler h eventName eventData
               = Inr (h\<lparr>data := Some (d\<lparr>name := ?nm\<rparr>), gotResponse := True\<rparr>)"
      using assms(1) True
      by (simp add: subscriptionHandler_def DEVICENAMEHELPER_MAX_NAME_LEN_def)
    have b: "length ?nm = 32" and c: "c_str ?nm = c_str eventData"
      using strcpy_fits [OF fits] len by simp_all
    have e: "take 31 (c_str eventData) = c_str eventData"
      using True by (simp add: strlen_def)
    have f: "NUL \<in> set ?nm"
      by (simp add: strcpy_def)
    have g: "length (c_str ?nm) \<le> 31"
      using True c by (simp add: strlen_def)
    show ?thesis
      using a b c e f g True by auto
  next
    case False
    let ?nm = "(strncpy (name d) eventData 31)[31 := NUL]"
    have a: "subscriptionHandler h eventName eventData
               = Inr (h\<lparr>data := Some (d\<lparr>name := ?nm\<rparr>), gotResponse := True\<rparr>)"
      using assms(1) False
      by (simp add: subscriptionHandler_def DEVICENAMEHELPER_MAX_NAME_LEN_def)
    have nm: "?nm = take 31 (c_str eventData) @ [NUL]"
      using False len by (intro strncpy_truncates) simp_all
    have l31: "length (take 31 (c_str eventData)) = 31"
      using False by (simp add: strlen_def)
    have c: "c_str ?nm = take 31 (c_str eventData)"
      unfolding nm by (rule c_str_terminated) (rule NUL_notin_take_c_str)
    have e: "strlen eventData \<le> 31 \<Longrightarrow> take 31 (c_str eventData) = c_str eventData"
      by (simp add: strlen_def)
    have b: "length ?nm = 32"
      unfolding nm using l31 by simp
    have f: "NUL \<in> set ?nm"
      unfolding nm by simp
    have g: "length (c_str ?nm) \<le> 31"
      unfolding c by simp
    show ?thesis
      using a b c e f g nm by auto
  qed
qed

theorem subscriptionHandler_stores_truncated_name_witness:
  "subscriptionHandler
      \<lparr>data = Some \<lparr>magic = 0x7787a2f2, size_d = 44, flags = 0, reserved = 0,
                     lastCheck = 0, name = replicate 32 NUL\<rparr>,
       checkPeriod = 0, nameCallback = True, stateHandler = Some WaitResponse,
       stateTime = 4000, hasSubscribed = True, gotResponse = False, forceCheck = False,
       log = [ParticleSubscribe, ParticlePublish]\<rparr>
      ''particle/device/name'' ''0123456789abcdefghijklmnopqrstuvwxyzABCD''
   = Inr \<lparr>data = Some \<lparr>magic = 0x7787a2f2, size_d = 44, flags = 0, reserved = 0,
                        lastCheck = 0, name = ''0123456789abcdefghijklmnopqrstu'' @ [NUL]\<rparr>,
          checkPeriod = 0, nameCallback = True, stateHandler = Some WaitResponse,
          stateTime = 4000, hasSubscribed = True, gotResponse = True, forceCheck = False,
          log = [ParticleSubscribe, ParticlePublish]\<rparr>
   \<and> (\<exists>nm. subscriptionHandler
      \<lparr>data = Some \<lparr>magic = 0x7787a2f2, size_d = 44, flags = 0, reserved = 0,
                     lastCheck = 0, name = replicate 32 NUL\<rparr>,
       checkPeriod = 0, nameCallback = True, stateHandler = Some WaitResponse,
       stateTime = 4000, hasSubscribed = True, gotResponse = False, forceCheck = False,
       log = [ParticleSubscribe, ParticlePublish]\<rparr>
      ''particle/device/name'' ''myroom''
       = Inr \<lparr>data = Some \<lparr>magic = 0x7787a2f2, size_d = 44, flags = 0, reserved = 0,
                        lastCheck = 0, name = nm\<rparr>,
          checkPeriod = 0, nameCallback = True, stateHandler = Some WaitResponse,
          stateTime = 4000, hasSubscribed = True, gotResponse = True, forceCheck = False,
          log = [ParticleSubscribe, ParticlePublish]\<rparr>
       \<and> length nm = 32 \<and> c_str nm = ''myroom'')"
proof -
  let ?d = "\<lparr>magic = 0x7787a2f2, size_d = 44, flags = 0, reserved = 0,
             lastCheck = 0, name = replicate 32 NUL\<rparr>"
  let ?h = "\<lparr>data = Some ?d,
       checkPeriod = 0, nameCallback = True, stateHandler = Some WaitResponse,
       stateTime = 4000, hasSubscribed = True, gotResponse = False, forceCheck = False,
       log = [ParticleSubscribe, ParticlePublish]\<rparr>"
  let ?p = "''0123456789abcdefghijklmnopqrstuvwxyzABCD''"
  have long: "31 < strlen ?p"
    by (simp add: strlen_def c_str_eval)
  have pre: "take 31 (c_str ?p) = ''0123456789abcdefghijklmnopqrstu''"
    by (simp add: c_str_eval)
  have short: "strlen ''myroom'' \<le> 31" and same: "c_str ''myroom'' = ''myroom''"
    by (simp_all add: strlen_def c_str_eval)
  have hd: "data ?h = Some ?d" and wf: "wf_data ?d"
    by (simp_all add: wf_data_def DEVICENAMEHELPER_MAX_NAME_LEN_def)
  have one: "subscriptionHandler ?h ''particle/device/name'' ?p
       = Inr (?h\<lparr>data := Some (?d\<lparr>name := ''0123456789abcdefghijklmnopqrstu'' @ [NUL]\<rparr>),
                  gotResponse := True\<rparr>)"
    using subscriptionHandler_stores_truncated_name [OF hd wf, of "''particle/device/name''" ?p]
      long pre by auto
  have two: "\<exists>nm. subscriptionHandler ?h ''particle/device/name'' ''myroom''
       = Inr (?h\<lparr>data := Some (?d\<lparr>name := nm\<rparr>), gotResponse := True\<rparr>)
       \<and> length nm = 32 \<and> c_str nm = ''myroom''"
    using subscriptionHandler_stores_truncated_name [OF hd wf, of "''particle/device/name''"
        "''myroom''"] short same by auto
  from one two show ?thesis
    by simp
qed

subsection \<open>Rechecking\<close>

text \<open>
  C4, as stated, fails at the boundary. With \<open>lastCheck = 1000\<close>, a period of 60
  seconds, a valid clock reading 1060 and 10000 ms of dwell, the evaluation in WaitRecheck
  only stamps the state time: the engine stays in WaitRecheck.
\<close>

theorem recheck_boundary_counterexample:
  "0 < sint (60 :: 64 word)
   \<and> sint (1000 :: 32 word) + sint (60 :: 64 word) \<le> sint (1060 :: 32 word)
   \<and> (10000 :: 32 word) \<le> 10000 - 0
   \<and> loop \<lparr>data = Some \<lparr>magic = 0x7787a2f2, size_d = 44, flags = 0, reserved = 0,
                         lastCheck = 1000, name = ''kitchen'' @ replicate 25 NUL\<rparr>,
            checkPeriod = 60, nameCallback = False, stateHandler = Some WaitRecheck,
            stateTime = 0, hasSubscribed = True, gotResponse = True, forceCheck = False,
            log = []\<rparr>
           \<lparr>millis_1 = 10000, millis_2 = 10000, Time_now = 1060, Time_isValid = True,
            Particle_connected = True\<rparr>
     = Inr \<lparr>data = Some \<lparr>magic = 0x7787a2f2, size_d = 44, flags = 0, reserved = 0,
                          lastCheck = 1000, name = ''kitchen'' @ replicate 25 NUL\<rparr>,
            checkPeriod = 60, nameCallback = False, stateHandler = Some WaitRecheck,
            stateTime = 10000, hasSubscribed = True, gotResponse = True, forceCheck = False,
            log = []\<rparr>"
  by (simp add: loop_def stateWaitRecheck_def recheckDue_def)

text \<open>
  C4, amended. For a recheck period \<open>D > 0\<close> and a valid clock, an evaluation in
  WaitRecheck (at least 10000 ms after the state's time stamp) moves to Subscribe when
  \<open>lastCheck + D < now\<close>, strictly. When \<open>now = lastCheck + D\<close> and no forced check
  is pending, the engine stays in WaitRecheck.
\<close>

theorem stateWaitRecheck_period_elapsed:
  assumes "stateHandler h = Some WaitRecheck" and "data h = Some d"
    and "0 < sint (checkPeriod h)" and "Time_isValid e"
    and "10000 \<le> millis_1 e - stateTime h"
  shows "(sint (lastCheck d) + sint (checkPeriod h) < sint (Time_now e) \<longrightarrow>
            loop h e = Inr (h\<lparr>stateTime := millis_2 e, forceCheck := False,
                              stateHandler := Some Subscribe\<rparr>))
       \<and> (sint (lastCheck d) + sint (checkPeriod h) = sint (Time_now e) \<and> \<not> forceCheck h \<longrightarrow>
            loop h e = Inr (h\<lparr>stateTime := millis_2 e\<rparr>))"
proof -
  have nz: "checkPeriod h \<noteq> 0"
    using assms(3) by auto
  have late: "\<not> millis_1 e - stateTime h < 10000"
    using assms(5) by (simp add: not_less)
  have due: "sint (lastCheck d) + sint (checkPeriod h) \<le> sint (Time_now e) \<Longrightarrow>
      recheckDue d (checkPeriod h) (Time_now e)
        \<longleftrightarrow> sint (lastCheck d) + sint (checkPeriod h) < sint (Time_now e)"
    using assms(3) by (rule recheckDue_positive_period)
  show ?thesis
  proof (intro conjI impI)
    assume lt: "sint (lastCheck d) + sint (checkPeriod h) < sint (Time_now e)"
    then have "recheckDue d (checkPeriod h) (Time_now e)"
      using due by simp
    then show "loop h e = Inr (h\<lparr>stateTime := millis_2 e, forceCheck := False,
                              stateHandler := Some Subscribe\<rparr>)"
      using assms(1,2,4) nz late
      by (cases "forceCheck h") (simp_all add: loop_def stateWaitRecheck_def Let_def)
  next
    assume eq: "sint (lastCheck d) + sint (checkPeriod h) = sint (Time_now e) \<and> \<not> forceCheck h"
    then have "\<not> recheckDue d (checkPeriod h) (Time_now e)"
      using due by simp
    then show "loop h e = Inr (h\<lparr>stateTime := millis_2 e\<rparr>)"
      using assms(1,2,4) nz late eq
      by (simp add: loop_def stateWaitRecheck_def Let_def)
  qed
qed

theorem stateWaitRecheck_period_elapsed_witness:
  "loop \<lparr>data = Some \<lparr>magic = 0x7787a2f2, size_d = 44, flags = 0, reserved = 0,
                      lastCheck = 1000, name = ''kitchen'' @ replicate 25 NUL\<rparr>,
         checkPeriod = 60, nameCallback = False, stateHandler = Some WaitRecheck,
         stateTime = 0, hasSubscribed = True, gotResponse = True, forceCheck = False,
         log = []\<rparr>
        \<lparr>millis_1 = 10000, millis_2 = 10002, Time_now = 1061, Time_isValid = True,
         Particle_connected = True\<rparr>
   = Inr \<lparr>data = Some \<lparr>magic = 0x7787a2f2, size_d = 44, flags = 0, reserved = 0,
                        lastCheck = 1000, name = ''kitchen'' @ replicate 25 NUL\<rparr>,
          checkPeriod = 60, nameCallback = False, stateHandler = Some Subscribe,
          stateTime = 10002, hasSubscribed = True, gotResponse = True, forceCheck = False,
          log = []\<rparr>
   \<and> loop \<lparr>data = Some \<lparr>magic = 0x7787a2f2, size_d = 44, flags = 0, reserved = 0,
                      lastCheck = 1000, name = ''kitchen'' @ replicate 25 NUL\<rparr>,
         checkPeriod = 60, nameCallback = False, stateHandler = Some WaitRecheck,
         stateTime = 0, hasSubscribed = True, gotResponse = True, forceCheck = False,
         log = []\<rparr>
        \<lparr>millis_1 = 10000, millis_2 = 10002, Time_now = 1060, Time_isValid = True,
         Particle_connected = True\<rparr>
   = Inr \<lparr>data = Some \<lparr>magic = 0x7787a2f2, size_d = 44, flags = 0, reserved = 0,
                        lastCheck = 1000, name = ''kitchen'' @ replicate 25 NUL\<rparr>,
          checkPeriod = 60, nameCallback = False, stateHandler = Some WaitRecheck,
          stateTime = 10002, hasSubscribed = True, gotResponse = True, forceCheck = False,
          log = []\<rparr>"
proof -
  let ?d = "\<lparr>magic = 0x7787a2f2, size_d = 44, flags = 0, reserved = 0,
             lastCheck = 1000, name = ''kitchen'' @ replicate 25 NUL\<rparr>"
  let ?h = "\<lparr>data = Some ?d,
         checkPeriod = 60, nameCallback = False, stateHandler = Some WaitRecheck,
         stateTime = 0, hasSubscribed = True, gotResponse = True, forceCheck = False,
         log = []\<rparr>"
  let ?e1 = "\<lparr>millis_1 = 10000, millis_2 = 10002, Time_now = 1061, Time_isValid = True,
         Particle_connected = True\<rparr>"
  let ?e2 = "\<lparr>millis_1 = 10000, millis_2 = 10002, Time_now = 1060, Time_isValid = True,
         Particle_connected = True\<rparr>"
  have a: "stateHandler ?h = Some WaitRecheck" and b: "data ?h = Some ?d"
    and c: "0 < sint (checkPeriod ?h)"
    by simp_all
  have d1: "Time_isValid ?e1" and m1: "10000 \<le> millis_1 ?e1 - stateTime ?h"
    and d2: "Time_isValid ?e2" and m2: "10000 \<le> millis_1 ?e2 - stateTime ?h"
    by simp_all
  from stateWaitRecheck_period_elapsed [OF a b c d1 m1]
    stateWaitRecheck_period_elapsed [OF a b c d2 m2]
  show ?thesis
    by simp
qed

subsection \<open>Failed fetches\<close>

text \<open>
  C5. In WaitResponse, an empty payload makes the handler store an empty name and
  set the response flag; the next tick then only moves to WaitRetry and stamps the state
  time, so the history (callback, save) and \<open>lastCheck\<close> are as before. A tick in
  WaitResponse without a response, 15000 ms or more after the state's time stamp, moves
  to WaitRetry as well.
\<close>

theorem empty_response_or_timeout_retries:
  assumes "stateHandler h = Some WaitResponse"
  shows "(data h = Some d \<and> strlen eventData = 0 \<longrightarrow>
            (\<exists>h1. subscriptionHandler h eventName eventData = Inr h1
                \<and> h1 = h\<lparr>data := Some (d\<lparr>name := NUL # drop 1 (name d)\<rparr>), gotResponse := True\<rparr>
                \<and> loop h1 e = Inr (h1\<lparr>stateHandler := Some WaitRetry, stateTime := millis_1 e\<rparr>)))
       \<and> (\<not> gotResponse h \<and> 15000 \<le> millis_1 e - stateTime h \<longrightarrow>
            loop h e = Inr (h\<lparr>stateHandler := Some WaitRetry, stateTime := millis_2 e\<rparr>))"
  using assms
  by (auto simp: subscriptionHandler_def strcpy_def strlen_0_c_str DEVICENAMEHELPER_MAX_NAME_LEN_def
      loop_def stateWaitResponse_def RESPONSE_WAIT_MS_def)

theorem empty_response_or_timeout_retries_witness:
  "subscriptionHandler
      \<lparr>data = Some \<lparr>magic = 0x7787a2f2, size_d = 44, flags = 0, reserved = 0,
                     lastCheck = 1000, name = ''kitchen'' @ replicate 25 NUL\<rparr>,
       checkPeriod = 0, nameCallback = True, stateHandler = Some WaitResponse,
       stateTime = 4000, hasSubscribed = True, gotResponse = False, forceCheck = False,
       log = [ParticleSubscribe, ParticlePublish]\<rparr>
      ''particle/device/name'' ''''
   = Inr \<lparr>data = Some \<lparr>magic = 0x7787a2f2, size_d = 44, flags = 0, reserved = 0,
                     lastCheck = 1000, name = NUL # ''itchen'' @ replicate 25 NUL\<rparr>,
       checkPeriod = 0, nameCallback = True, stateHandler = Some WaitResponse,
       stateTime = 4000, hasSubscribed = True, gotResponse = True, forceCheck = False,
       log = [ParticleSubscribe, ParticlePublish]\<rparr>
   \<and> loop \<lparr>data = Some \<lparr>magic = 0x7787a2f2, size_d = 44, flags = 0, reserved = 0,
                     lastCheck = 1000, name = NUL # ''itchen'' @ replicate 25 NUL\<rparr>,
       checkPeriod = 0, nameCallback = True, stateHandler = Some WaitResponse,
       stateTime = 4000, hasSubscribed = True, gotResponse = True, forceCheck = False,
       log = [ParticleSubscribe, ParticlePublish]\<rparr>
       \<lparr>millis_1 = 4500, millis_2 = 4501, Time_now = 1700000000, Time_isValid = True,
         Particle_connected = True\<rparr>
   = Inr \<lparr>data = Some \<lparr>magic = 0x7787a2f2, size_d = 44, flags = 0, reserved = 0,
                     lastCheck = 1000, name = NUL # ''itchen'' @ replicate 25 NUL\<rparr>,
       checkPeriod = 0, nameCallback = True, stateHandler = Some WaitRetry,
       stateTime = 4500, hasSubscribed = True, gotResponse = True, forceCheck = False,
       log = [ParticleSubscribe, ParticlePublish]\<rparr>
   \<and> loop \<lparr>data = Some \<lparr>magic = 0x7787a2f2, size_d = 44, flags = 0, reserved = 0,
                     lastCheck = 1000, name = ''kitchen'' @ replicate 25 NUL\<rparr>,
       checkPeriod = 0, nameCallback = True, stateHandler = Some WaitResponse,
       stateTime = 4000, hasSubscribed = True, gotResponse = False, forceCheck = False,
       log = [ParticleSubscribe, ParticlePublish]\<rparr>
       \<lparr>millis_1 = 19000, millis_2 = 19001, Time_now = 1700000000, Time_isValid = True,
         Particle_connected = True\<rparr>
   = Inr \<lparr>data = Some \<lparr>magic = 0x7787a2f2, size_d = 44, flags = 0, reserved = 0,
                     lastCheck = 1000, name = ''kitchen'' @ replicate 25 NUL\<rparr>,
       checkPeriod = 0, nameCallback = True, stateHandler = Some WaitRetry,
       stateTime = 19001, hasSubscribed = True, gotResponse = False, forceCheck = False,
       log = [ParticleSubscribe, ParticlePublish]\<rparr>"
proof -
  let ?d = "\<lparr>magic = 0x7787a2f2, size_d = 44, flags = 0, reserved = 0,
             lastCheck = 1000, name = ''kitchen'' @ replicate 25 NUL\<rparr>"
  let ?h = "\<lparr>data = Some ?d,
       checkPeriod = 0, nameCallback = True, stateHandler = Some WaitResponse,
       stateTime = 4000, hasSubscribed = True, gotResponse = False, forceCheck = False,
       log = [ParticleSubscribe, ParticlePublish]\<rparr>"
  let ?e1 = "\<lparr>millis_1 = 4500, millis_2 = 4501, Time_now = 1700000000, Time_isValid = True,
         Particle_connected = True\<rparr>"
  let ?e2 = "\<lparr>millis_1 = 19000, millis_2 = 19001, Time_now = 1700000000, Time_isValid = True,
         Particle_connected = True\<rparr>"
  have a: "stateHandler ?h = Some WaitResponse"
    by simp
  have z: "strlen '''' = 0"
    by (simp add: strlen_def c_str_eval)
  from empty_response_or_timeout_retries [OF a, of ?d "''''" "''particle/device/name''" ?e1]
    empty_response_or_timeout_retries [OF a, of ?d "''''" "''particle/device/name''" ?e2]
  show ?thesis
    using z by simp
qed

subsection \<open>The idle engine and forced checks\<close>

text \<open>
  C6. A successful fetch leaves the engine in WaitRecheck with period and force flag
  untouched. With period 0 and no forced check pending, the evaluation in WaitRecheck
  (10000 ms or more after the state's time stamp) empties the state handler. From then
  on a tick changes nothing, and any sequence of operations without \<^verbatim>\<open>checkName()\<close>
  runs without fault, keeps the handler empty and adds no call (so no subscribe and no
  publish) to the history.
\<close>

theorem recheck_disabled_goes_idle:
  "(stateHandler h = Some WaitResponse \<and> gotResponse h \<and> data h = Some d \<and> name d ! 0 \<noteq> NUL \<longrightarrow>
      (\<exists>h'. loop h e = Inr h' \<and> stateHandler h' = Some WaitRecheck \<and> data h' \<noteq> None
          \<and> checkPeriod h' = checkPeriod h \<and> forceCheck h' = forceCheck h))
   \<and> (stateHandler h = Some WaitRecheck \<and> checkPeriod h = 0 \<and> \<not> forceCheck h
        \<and> 10000 \<le> millis_1 e - stateTime h \<longrightarrow>
      loop h e = Inr (h\<lparr>stateTime := millis_2 e, stateHandler := None\<rparr>))
   \<and> (stateHandler h = None \<longrightarrow> loop h e = Inr h)
   \<and> (stateHandler h = None \<and> data h \<noteq> None \<and> CheckName \<notin> set ops \<longrightarrow>
      (\<exists>h'. run h ops = Inr h' \<and> stateHandler h' = None \<and> log h' = log h))"
proof (intro conjI impI)
  assume "stateHandler h = Some WaitResponse \<and> gotResponse h \<and> data h = Some d \<and> name d ! 0 \<noteq> NUL"
  then show "\<exists>h'. loop h e = Inr h' \<and> stateHandler h' = Some WaitRecheck \<and> data h' \<noteq> None
          \<and> checkPeriod h' = checkPeriod h \<and> forceCheck h' = forceCheck h"
    by (simp add: loop_def stateWaitResponse_def callNameCallback_def Let_def)
next
  assume "stateHandler h = Some WaitRecheck \<and> checkPeriod h = 0 \<and> \<not> forceCheck h
        \<and> 10000 \<le> millis_1 e - stateTime h"
  then show "loop h e = Inr (h\<lparr>stateTime := millis_2 e, stateHandler := None\<rparr>)"
    by (simp add: loop_def stateWaitRecheck_def Let_def not_less [symmetric])
next
  assume "stateHandler h = None"
  then show "loop h e = Inr h" by (simp add: loop_def)
next
  assume "stateHandler h = None \<and> data h \<noteq> None \<and> CheckName \<notin> set ops"
  then show "\<exists>h'. run h ops = Inr h' \<and> stateHandler h' = None \<and> log h' = log h"
    using run_idle by blast
qed

theorem recheck_disabled_goes_idle_witness:
  "(\<exists>h'. loop \<lparr>data = Some \<lparr>magic = 0x7787a2f2, size_d = 44, flags = 0, reserved = 0,
                      lastCheck = 0, name = ''kitchen'' @ replicate 25 NUL\<rparr>,
              checkPeriod = 0, nameCallback = True, stateHandler = Some WaitResponse,
              stateTime = 4000, hasSubscribed = True, gotResponse = True, forceCheck = False,
              log = [ParticleSubscribe, ParticlePublish]\<rparr>
             \<lparr>millis_1 = 4500, millis_2 = 4501, Time_now = 1700000000, Time_isValid = True,
              Particle_connected = True\<rparr> = Inr h'
         \<and> stateHandler h' = Some WaitRecheck \<and> checkPeriod h' = 0 \<and> forceCheck h' = False)
   \<and> loop \<lparr>data = Some \<lparr>magic = 0x7787a2f2, size_d = 44, flags = 0, reserved = 0,
                      lastCheck = 1700000000, name = ''kitchen'' @ replicate 25 NUL\<rparr>,
              checkPeriod = 0, nameCallback = True, stateHandler = Some WaitRecheck,
              stateTime = 4500, hasSubscribed = True, gotResponse = True, forceCheck = False,
              log = [ParticleSubscribe, ParticlePublish]\<rparr>
            \<lparr>millis_1 = 14500, millis_2 = 14501, Time_now = 1700000010, Time_isValid = True,
              Particle_connected = True\<rparr>
       = Inr \<lparr>data = Some \<lparr>magic = 0x7787a2f2, size_d = 44, flags = 0, reserved = 0,
                      lastCheck = 1700000000, name = ''kitchen'' @ replicate 25 NUL\<rparr>,
              checkPeriod = 0, nameCallback = True, stateHandler = None,
              stateTime = 14501, hasSubscribed = True, gotResponse = True, forceCheck = False,
              log = [ParticleSubscribe, ParticlePublish]\<rparr>
   \<and> loop \<lparr>data = Some \<lparr>magic = 0x7787a2f2, size_d = 44, flags = 0, reserved = 0,
                      lastCheck = 1700000000, name = ''kitchen'' @ replicate 25 NUL\<rparr>,
              checkPeriod = 0, nameCallback = True, stateHandler = None,
              stateTime = 14501, hasSubscribed = True, gotResponse = True, forceCheck = False,
              log = [ParticleSubscribe, ParticlePublish]\<rparr>
            \<lparr>millis_1 = 99000, millis_2 = 99001, Time_now = 1700000090, Time_isValid = True,
              Particle_connected = True\<rparr>
       = Inr \<lparr>data = Some \<lparr>magic = 0x7787a2f2, size_d = 44, flags = 0, reserved = 0,
                      lastCheck = 1700000000, name = ''kitchen'' @ replicate 25 NUL\<rparr>,
              checkPeriod = 0, nameCallback = True, stateHandler = None,
              stateTime = 14501, hasSubscribed = True, gotResponse = True, forceCheck = False,
              log = [ParticleSubscribe, ParticlePublish]\<rparr>
   \<and> (\<exists>h'. run \<lparr>data = Some \<lparr>magic = 0x7787a2f2, size_d = 44, flags = 0, reserved = 0,
                      lastCheck = 1700000000, name = ''kitchen'' @ replicate 25 NUL\<rparr>,
              checkPeriod = 0, nameCallback = True, stateHandler = None,
              stateTime = 14501, hasSubscribed = True, gotResponse = True, forceCheck = False,
              log = [ParticleSubscribe, ParticlePublish]\<rparr>
            [Loop \<lparr>millis_1 = 99000, millis_2 = 99001, Time_now = 1700000090,
                   Time_isValid = True, Particle_connected = True\<rparr>,
             SubscriptionHandler ''particle/device/name'' ''pantry'',
             SubscriptionRemoved,
             WithCheckPeriod 60,
             Loop \<lparr>millis_1 = 199000, millis_2 = 199001, Time_now = 1700000190,
                   Time_isValid = True, Particle_connected = True\<rparr>] = Inr h'
         \<and> stateHandler h' = None \<and> log h' = [ParticleSubscribe, ParticlePublish])"
proof -
  let ?d0 = "\<lparr>magic = 0x7787a2f2, size_d = 44, flags = 0, reserved = 0,
                      lastCheck = 0, name = ''kitchen'' @ replicate 25 NUL\<rparr>"
  let ?d1 = "\<lparr>magic = 0x7787a2f2, size_d = 44, flags = 0, reserved = 0,
                      lastCheck = 1700000000, name = ''kitchen'' @ replicate 25 NUL\<rparr>"
  let ?e0 = "\<lparr>millis_1 = 4500, millis_2 = 4501, Time_now = 1700000000, Time_isValid = True,
              Particle_connected = True\<rparr>"
  let ?e1 = "\<lparr>millis_1 = 14500, millis_2 = 14501, Time_now = 1700000010, Time_isValid = True,
              Particle_connected = True\<rparr>"
  let ?e2 = "\<lparr>millis_1 = 99000, millis_2 = 99001, Time_now = 1700000090, Time_isValid = True,
              Particle_connected = True\<rparr>"
  let ?h0 = "\<lparr>data = Some ?d0,
              checkPeriod = 0, nameCallback = True, stateHandler = Some WaitResponse,
              stateTime = 4000, hasSubscribed = True, gotResponse = True, forceCheck = False,
              log = [ParticleSubscribe, ParticlePublish]\<rparr>"
  let ?h1 = "\<lparr>data = Some ?d1,
              checkPeriod = 0, nameCallback = True, stateHandler = Some WaitRecheck,
              stateTime = 4500, hasSubscribed = True, gotResponse = True, forceCheck = False,
              log = [ParticleSubscribe, ParticlePublish]\<rparr>"
  let ?h2 = "\<lparr>data = Some ?d1,
              checkPeriod = 0, nameCallback = True, stateHandler = None,
              stateTime = 14501, hasSubscribed = True, gotResponse = True, forceCheck = False,
              log = [ParticleSubscribe, ParticlePublish]\<rparr>"
  let ?ops = "[Loop ?e2,
             SubscriptionHandler ''particle/device/name'' ''pantry'',
             SubscriptionRemoved,
             WithCheckPeriod 60,
             Loop \<lparr>millis_1 = 199000, millis_2 = 199001, Time_now = 1700000190,
                   Time_isValid = True, Particle_connected = True\<rparr>]"
  have a: "\<exists>h'. loop ?h0 ?e0 = Inr h' \<and> stateHandler h' = Some WaitRecheck
      \<and> checkPeriod h' = 0 \<and> forceCheck h' = False"
    using recheck_disabled_goes_idle [of ?h0 ?d0 ?e0 "[]"] by auto
  have b: "loop ?h1 ?e1 = Inr ?h2"
    using recheck_disabled_goes_idle [of ?h1 ?d1 ?e1 "[]"] by simp
  have c: "loop ?h2 ?e2 = Inr ?h2"
    using recheck_disabled_goes_idle [of ?h2 ?d1 ?e2 "[]"] by simp
  have d: "\<exists>h'. run ?h2 ?ops = Inr h' \<and> stateHandler h' = None
      \<and> log h' = [ParticleSubscribe, ParticlePublish]"
    using recheck_disabled_goes_idle [of ?h2 ?d1 ?e2 ?ops] by (simp del: run.simps)
  from a b c d show ?thesis
    by blast
qed

text \<open>
  C7. \<^verbatim>\<open>checkName()\<close> on an idle engine binds the handler to \<^verbatim>\<open>stateSubscribe\<close>, which
  the next tick runs; on an engine with a handler it only sets the force flag. A tick
  outside WaitRecheck, or in WaitRecheck before 10000 ms of dwell, neither reads nor
  writes the flag: its outcome is the same for either value and the flag is kept. An
  evaluation in WaitRecheck with the flag set clears it and moves to Subscribe, whatever
  the period.
\<close>

theorem checkName_idle_or_flag:
  "(stateHandler h = None \<longrightarrow>
      checkName h = h\<lparr>stateHandler := Some Subscribe\<rparr>
      \<and> loop (checkName h) e = stateSubscribe (h\<lparr>stateHandler := Some Subscribe\<rparr>) e)
   \<and> (stateHandler h \<noteq> None \<longrightarrow> checkName h = h\<lparr>forceCheck := True\<rparr>)
   \<and> (stateHandler h \<noteq> Some WaitRecheck \<or> millis_1 e - stateTime h < 10000 \<longrightarrow>
        loop (h\<lparr>forceCheck := b\<rparr>) e = map_sum id (\<lambda>h'. h'\<lparr>forceCheck := b\<rparr>) (loop h e))
   \<and> (stateHandler h = Some WaitRecheck \<and> forceCheck h \<and> 10000 \<le> millis_1 e - stateTime h \<longrightarrow>
        loop h e = Inr (h\<lparr>stateTime := millis_2 e, forceCheck := False,
                          stateHandler := Some Subscribe\<rparr>))"
proof (intro conjI impI)
  assume "stateHandler h = None"
  then show "checkName h = h\<lparr>stateHandler := Some Subscribe\<rparr>"
    by (simp add: checkName_def)
  then show "loop (checkName h) e = stateSubscribe (h\<lparr>stateHandler := Some Subscribe\<rparr>) e"
    by (simp add: loop_def)
next
  assume "stateHandler h \<noteq> None"
  then show "checkName h = h\<lparr>forceCheck := True\<rparr>"
    by (auto simp: checkName_def)
next
  assume "stateHandler h \<noteq> Some WaitRecheck \<or> millis_1 e - stateTime h < 10000"
  then show "loop (h\<lparr>forceCheck := b\<rparr>) e = map_sum id (\<lambda>h'. h'\<lparr>forceCheck := b\<rparr>) (loop h e)"
    by (rule loop_forceCheck_irrelevant)
next
  assume "stateHandler h = Some WaitRecheck \<and> forceCheck h \<and> 10000 \<le> millis_1 e - stateTime h"
  then show "loop h e = Inr (h\<lparr>stateTime := millis_2 e, forceCheck := False,
                          stateHandler := Some Subscribe\<rparr>)"
    by (simp add: loop_def stateWaitRecheck_forced)
qed

theorem checkName_idle_or_flag_witness:
  "checkName \<lparr>data = Some \<lparr>magic = 0x7787a2f2, size_d = 44, flags = 0, reserved = 0,
                      lastCheck = 1700000000, name = ''kitchen'' @ replicate 25 NUL\<rparr>,
              checkPeriod = 0, nameCallback = True, stateHandler = None,
              stateTime = 14501, hasSubscribed = True, gotResponse = True, forceCheck = False,
              log = [ParticleSubscribe, ParticlePublish]\<rparr>
     = \<lparr>data = Some \<lparr>magic = 0x7787a2f2, size_d = 44, flags = 0, reserved = 0,
                      lastCheck = 1700000000, name = ''kitchen'' @ replicate 25 NUL\<rparr>,
              checkPeriod = 0, nameCallback = True, stateHandler = Some Subscribe,
              stateTime = 14501, hasSubscribed = True, gotResponse = True, forceCheck = False,
              log = [ParticleSubscribe, ParticlePublish]\<rparr>
   \<and> checkName \<lparr>data = Some \<lparr>magic = 0x7787a2f2, size_d = 44, flags = 0, reserved = 0,
                      lastCheck = 0, name = replicate 32 NUL\<rparr>,
              checkPeriod = 0, nameCallback = True, stateHandler = Some WaitConnected,
              stateTime = 0, hasSubscribed = True, gotResponse = False, forceCheck = False,
              log = [ParticleSubscribe]\<rparr>
     = \<lparr>data = Some \<lparr>magic = 0x7787a2f2, size_d = 44, flags = 0, reserved = 0,
                      lastCheck = 0, name = replicate 32 NUL\<rparr>,
              checkPeriod = 0, nameCallback = True, stateHandler = Some WaitConnected,
              stateTime = 0, hasSubscribed = True, gotResponse = False, forceCheck = True,
              log = [ParticleSubscribe]\<rparr>
   \<and> loop \<lparr>data = Some \<lparr>magic = 0x7787a2f2, size_d = 44, flags = 0, reserved = 0,
                      lastCheck = 0, name = replicate 32 NUL\<rparr>,
              checkPeriod = 0, nameCallback = True, stateHandler = Some WaitConnected,
              stateTime = 0, hasSubscribed = True, gotResponse = False, forceCheck = True,
              log = [ParticleSubscribe]\<rparr>
            \<lparr>millis_1 = 700, millis_2 = 701, Time_now = 1700000000, Time_isValid = True,
              Particle_connected = True\<rparr>
     = Inr \<lparr>data = Some \<lparr>magic = 0x7787a2f2, size_d = 44, flags = 0, reserved = 0,
                      lastCheck = 0, name = replicate 32 NUL\<rparr>,
              checkPeriod = 0, nameCallback = True, stateHandler = Some WaitRequest,
              stateTime = 700, hasSubscribed = True, gotResponse = False, forceCheck = True,
              log = [ParticleSubscribe]\<rparr>
   \<and> loop \<lparr>data = Some \<lparr>magic = 0x7787a2f2, size_d = 44, flags = 0, reserved = 0,
                      lastCheck = 1700000000, name = ''kitchen'' @ replicate 25 NUL\<rparr>,
              checkPeriod = 0, nameCallback = True, stateHandler = Some WaitRecheck,
              stateTime = 4500, hasSubscribed = True, gotResponse = True, forceCheck = True,
              log = [ParticleSubscribe, ParticlePublish]\<rparr>
            \<lparr>millis_1 = 14500, millis_2 = 14501, Time_now = 1700000010, Time_isValid = True,
              Particle_connected = True\<rparr>
     = Inr \<lparr>data = Some \<lparr>magic = 0x7787a2f2, size_d = 44, flags = 0, reserved = 0,
                      lastCheck = 1700000000, name = ''kitchen'' @ replicate 25 NUL\<rparr>,
              checkPeriod = 0, nameCallback = True, stateHandler = Some Subscribe,
              stateTime = 14501, hasSubscribed = True, gotResponse = True, forceCheck = False,
              log = [ParticleSubscribe, ParticlePublish]\<rparr>"
proof -
  let ?d0 = "\<lparr>magic = 0x7787a2f2, size_d = 44, flags = 0, reserved = 0,
                      lastCheck = 0, name = replicate 32 NUL\<rparr>"
  let ?d1 = "\<lparr>magic = 0x7787a2f2, size_d = 44, flags = 0, reserved = 0,
                      lastCheck = 1700000000, name = ''kitchen'' @ replicate 25 NUL\<rparr>"
  let ?idle = "\<lparr>data = Some ?d1,
              checkPeriod = 0, nameCallback = True, stateHandler = None,
              stateTime = 14501, hasSubscribed = True, gotResponse = True, forceCheck = False,
              log = [ParticleSubscribe, ParticlePublish]\<rparr>"
  let ?busy = "\<lparr>data = Some ?d0,
              checkPeriod = 0, nameCallback = True, stateHandler = Some WaitConnected,
              stateTime = 0, hasSubscribed = True, gotResponse = False, forceCheck = False,
              log = [ParticleSubscribe]\<rparr>"
  let ?forced = "\<lparr>data = Some ?d1,
              checkPeriod = 0, nameCallback = True, stateHandler = Some WaitRecheck,
              stateTime = 4500, hasSubscribed = True, gotResponse = True, forceCheck = True,
              log = [ParticleSubscribe, ParticlePublish]\<rparr>"
  let ?e0 = "\<lparr>millis_1 = 700, millis_2 = 701, Time_now = 1700000000, Time_isValid = True,
              Particle_connected = True\<rparr>"
  let ?e1 = "\<lparr>millis_1 = 14500, millis_2 = 14501, Time_now = 1700000010, Time_isValid = True,
              Particle_connected = True\<rparr>"
  have a: "checkName ?idle = ?idle\<lparr>stateHandler := Some Subscribe\<rparr>"
    using checkName_idle_or_flag [of ?idle ?e0 True] by simp
  have b: "checkName ?busy = ?busy\<lparr>forceCheck := True\<rparr>"
    using checkName_idle_or_flag [of ?busy ?e0 True] by simp
  have "loop ?busy ?e0 = Inr (?busy\<lparr>stateHandler := Some WaitRequest, stateTime := 700\<rparr>)"
    by (simp add: loop_def stateWaitConnected_def)
  then have c: "loop (?busy\<lparr>forceCheck := True\<rparr>) ?e0
      = Inr (?busy\<lparr>stateHandler := Some WaitRequest, stateTime := 700, forceCheck := True\<rparr>)"
    using checkName_idle_or_flag [of ?busy ?e0 True] by simp
  have d: "loop ?forced ?e1
      = Inr (?forced\<lparr>stateTime := 14501, forceCheck := False, stateHandler := Some Subscribe\<rparr>)"
    using checkName_idle_or_flag [of ?forced ?e1 True] by simp
  from a b c d show ?thesis
    by simp
qed

subsection \<open>Start-up, subscription and accessors\<close>

text \<open>
  C8. The tick in the Start state with a non-empty name, held as a NUL-terminated
  string in the record's buffer, calls the name callback, if one is registered, with that
  name and moves to WaitRecheck; the callback is the only call the tick adds to the
  history, so no subscribe and no publish precede it. With an empty name the tick only
  moves to Subscribe.
\<close>

theorem stateStart_cached_name:
  assumes "stateHandler h = Some Start" and "data h = Some d"
  shows "(name d ! 0 \<noteq> NUL \<and> NUL \<in> set (name d) \<longrightarrow>
            loop h e =
              Inr (h\<lparr>log := log h @ (if nameCallback h then [NameCallback (c_str (name d))] else []),
                     stateHandler := Some WaitRecheck,
                     stateTime := millis_1 e\<rparr>))
       \<and> (name d ! 0 = NUL \<longrightarrow> loop h e = Inr (h\<lparr>stateHandler := Some Subscribe\<rparr>))"
  using assms
  by (simp add: loop_def stateStart_def callNameCallback_def)

theorem stateStart_cached_name_witness:
  "loop \<lparr>data = Some \<lparr>magic = 0x7787a2f2, size_d = 44, flags = 0, reserved = 0,
                      lastCheck = 1000, name = ''kitchen'' @ replicate 25 NUL\<rparr>,
         checkPeriod = 0, nameCallback = True, stateHandler = Some Start,
         stateTime = 0, hasSubscribed = False, gotResponse = False, forceCheck = False,
         log = []\<rparr>
        \<lparr>millis_1 = 120, millis_2 = 121, Time_now = 0, Time_isValid = False,
         Particle_connected = False\<rparr>
   = Inr \<lparr>data = Some \<lparr>magic = 0x7787a2f2, size_d = 44, flags = 0, reserved = 0,
                        lastCheck = 1000, name = ''kitchen'' @ replicate 25 NUL\<rparr>,
          checkPeriod = 0, nameCallback = True, stateHandler = Some WaitRecheck,
          stateTime = 120, hasSubscribed = False, gotResponse = False, forceCheck = False,
          log = [NameCallback ''kitchen'']\<rparr>
   \<and> loop \<lparr>data = Some \<lparr>magic = 0x7787a2f2, size_d = 44, flags = 0, reserved = 0,
                      lastCheck = 0, name = replicate 32 NUL\<rparr>,
         checkPeriod = 0, nameCallback = True, stateHandler = Some Start,
         stateTime = 0, hasSubscribed = False, gotResponse = False, forceCheck = False,
         log = []\<rparr>
        \<lparr>millis_1 = 120, millis_2 = 121, Time_now = 0, Time_isValid = False,
         Particle_connected = False\<rparr>
   = Inr \<lparr>data = Some \<lparr>magic = 0x7787a2f2, size_d = 44, flags = 0, reserved = 0,
                        lastCheck = 0, name = replicate 32 NUL\<rparr>,
          checkPeriod = 0, nameCallback = True, stateHandler = Some Subscribe,
          stateTime = 0, hasSubscribed = False, gotResponse = False, forceCheck = False,
          log = []\<rparr>"
proof -
  let ?d1 = "\<lparr>magic = 0x7787a2f2, size_d = 44, flags = 0, reserved = 0,
              lastCheck = 1000, name = ''kitchen'' @ replicate 25 NUL\<rparr>"
  let ?d2 = "\<lparr>magic = 0x7787a2f2, size_d = 44, flags = 0, reserved = 0,
              lastCheck = 0, name = replicate 32 NUL\<rparr>"
  let ?h1 = "\<lparr>data = Some ?d1,
         checkPeriod = 0, nameCallback = True, stateHandler = Some Start,
         stateTime = 0, hasSubscribed = False, gotResponse = False, forceCheck = False,
         log = []\<rparr>"
  let ?h2 = "\<lparr>data = Some ?d2,
         checkPeriod = 0, nameCallback = True, stateHandler = Some Start,
         stateTime = 0, hasSubscribed = False, gotResponse = False, forceCheck = False,
         log = []\<rparr>"
  let ?e = "\<lparr>millis_1 = 120, millis_2 = 121, Time_now = 0, Time_isValid = False,
         Particle_connected = False\<rparr>"
  have s1: "stateHandler ?h1 = Some Start" and r1: "data ?h1 = Some ?d1"
    and s2: "stateHandler ?h2 = Some Start" and r2: "data ?h2 = Some ?d2"
    by simp_all
  have n1: "name ?d1 ! 0 \<noteq> NUL \<and> NUL \<in> set (name ?d1)" and n2: "name ?d2 ! 0 = NUL"
    by simp_all
  from stateStart_cached_name [OF s1 r1, of ?e] stateStart_cached_name [OF s2 r2, of ?e]
  show ?thesis
    using n1 n2 by (simp add: c_str_eval)
qed

text \<open>
  C9. Over any sequence of operations without \<^verbatim>\<open>subscriptionRemoved()\<close> the engine
  calls \<^verbatim>\<open>Particle.subscribe\<close> at most once, and not at all when the subscribed flag is
  already set. \<^verbatim>\<open>stateSubscribe\<close> with the flag set makes no call;
  after \<^verbatim>\<open>subscriptionRemoved()\<close> it subscribes again and sets the flag.
\<close>

theorem subscribe_once_per_removal:
  "(run h ops = Inr h' \<and> SubscriptionRemoved \<notin> set ops \<longrightarrow>
      subscribeCalls (log h') \<le> subscribeCalls (log h) + (if hasSubscribed h then 0 else 1))
   \<and> (hasSubscribed h \<longrightarrow> stateSubscribe h e = Inr (h\<lparr>stateHandler := Some WaitConnected\<rparr>))
   \<and> stateSubscribe (subscriptionRemoved h) e
       = Inr (h\<lparr>log := log h @ [ParticleSubscribe], hasSubscribed := True,
                 stateHandler := Some WaitConnected\<rparr>)"
proof (intro conjI impI)
  assume "run h ops = Inr h' \<and> SubscriptionRemoved \<notin> set ops"
  then have "pendingSubscribe h' = pendingSubscribe h"
    using run_pendingSubscribe by blast
  then show "subscribeCalls (log h') \<le> subscribeCalls (log h) + (if hasSubscribed h then 0 else 1)"
    by (simp add: pendingSubscribe_def split: if_splits)
next
  assume "hasSubscribed h"
  then show "stateSubscribe h e = Inr (h\<lparr>stateHandler := Some WaitConnected\<rparr>)"
    by (simp add: stateSubscribe_def)
next
  show "stateSubscribe (subscriptionRemoved h) e
       = Inr (h\<lparr>log := log h @ [ParticleSubscribe], hasSubscribed := True,
                 stateHandler := Some WaitConnected\<rparr>)"
    by (simp add: stateSubscribe_def subscriptionRemoved_def)
qed

theorem subscribe_once_per_removal_witness:
  "run \<lparr>data = Some \<lparr>magic = 0x7787a2f2, size_d = 44, flags = 0, reserved = 0,
                      lastCheck = 1000, name = ''kitchen'' @ replicate 25 NUL\<rparr>,
         checkPeriod = 0, nameCallback = True, stateHandler = Some WaitRecheck,
         stateTime = 120, hasSubscribed = False, gotResponse = False, forceCheck = False,
         log = [NameCallback ''kitchen'']\<rparr>
     [CheckName,
      Loop \<lparr>millis_1 = 11000, millis_2 = 11000, Time_now = 1700000000, Time_isValid = True,
            Particle_connected = True\<rparr>,
      Loop \<lparr>millis_1 = 11010, millis_2 = 11010, Time_now = 1700000000, Time_isValid = True,
            Particle_connected = True\<rparr>,
      Loop \<lparr>millis_1 = 11020, millis_2 = 11020, Time_now = 1700000000, Time_isValid = True,
            Particle_connected = True\<rparr>,
      Loop \<lparr>millis_1 = 13020, millis_2 = 13020, Time_now = 1700000002, Time_isValid = True,
            Particle_connected = True\<rparr>,
      SubscriptionHandler ''particle/device/name'' ''pantry'',
      Loop \<lparr>millis_1 = 13500, millis_2 = 13500, Time_now = 1700000003, Time_isValid = True,
            Particle_connected = True\<rparr>,
      CheckName,
      Loop \<lparr>millis_1 = 23500, millis_2 = 23500, Time_now = 1700000013, Time_isValid = True,
            Particle_connected = True\<rparr>,
      Loop \<lparr>millis_1 = 23510, millis_2 = 23510, Time_now = 1700000013, Time_isValid = True,
            Particle_connected = True\<rparr>]
   = Inr \<lparr>data = Some \<lparr>magic = 0x7787a2f2, size_d = 44, flags = 0, reserved = 0,
                        lastCheck = 1700000003, name = ''pantry'' @ NUL # replicate 25 NUL\<rparr>,
          checkPeriod = 0, nameCallback = True, stateHandler = Some WaitConnected,
          stateTime = 23500, hasSubscribed = True, gotResponse = True, forceCheck = False,
          log = [NameCallback ''kitchen'', ParticleSubscribe, ParticlePublish,
                 SaveCalled \<lparr>magic = 0x7787a2f2, size_d = 44, flags = 0, reserved = 0,
                        lastCheck = 1700000003, name = ''pantry'' @ NUL # replicate 25 NUL\<rparr>,
                 NameCallback ''pantry'']\<rparr>
   \<and> subscribeCalls [NameCallback ''kitchen'', ParticleSubscribe, ParticlePublish,
                 SaveCalled \<lparr>magic = 0x7787a2f2, size_d = 44, flags = 0, reserved = 0,
                        lastCheck = 1700000003, name = ''pantry'' @ NUL # replicate 25 NUL\<rparr>,
                 NameCallback ''pantry''] \<le> 1"
proof -
  let ?h = "\<lparr>data = Some \<lparr>magic = 0x7787a2f2, size_d = 44, flags = 0, reserved = 0,
                      lastCheck = 1000, name = ''kitchen'' @ replicate 25 NUL\<rparr>,
         checkPeriod = 0, nameCallback = True, stateHandler = Some WaitRecheck,
         stateTime = 120, hasSubscribed = False, gotResponse = False, forceCheck = False,
         log = [NameCallback ''kitchen'']\<rparr>"
  let ?ops = "[CheckName,
      Loop \<lparr>millis_1 = 11000, millis_2 = 11000, Time_now = 1700000000, Time_isValid = True,
            Particle_connected = True\<rparr>,
      Loop \<lparr>millis_1 = 11010, millis_2 = 11010, Time_now = 1700000000, Time_isValid = True,
            Particle_connected = True\<rparr>,
      Loop \<lparr>millis_1 = 11020, millis_2 = 11020, Time_now = 1700000000, Time_isValid = True,
            Particle_connected = True\<rparr>,
      Loop \<lparr>millis_1 = 13020, millis_2 = 13020, Time_now = 1700000002, Time_isValid = True,
            Particle_connected = True\<rparr>,
      SubscriptionHandler ''particle/device/name'' ''pantry'',
      Loop \<lparr>millis_1 = 13500, millis_2 = 13500, Time_now = 1700000003, Time_isValid = True,
            Particle_connected = True\<rparr>,
      CheckName,
      Loop \<lparr>millis_1 = 23500, millis_2 = 23500, Time_now = 1700000013, Time_isValid = True,
            Particle_connected = True\<rparr>,
      Loop \<lparr>millis_1 = 23510, millis_2 = 23510, Time_now = 1700000013, Time_isValid = True,
            Particle_connected = True\<rparr>]"
  let ?h' = "\<lparr>data = Some \<lparr>magic = 0x7787a2f2, size_d = 44, flags = 0, reserved = 0,
                        lastCheck = 1700000003, name = ''pantry'' @ NUL # replicate 25 NUL\<rparr>,
          checkPeriod = 0, nameCallback = True, stateHandler = Some WaitConnected,
          stateTime = 23500, hasSubscribed = True, gotResponse = True, forceCheck = False,
          log = [NameCallback ''kitchen'', ParticleSubscribe, ParticlePublish,
                 SaveCalled \<lparr>magic = 0x7787a2f2, size_d = 44, flags = 0, reserved = 0,
                        lastCheck = 1700000003, name = ''pantry'' @ NUL # replicate 25 NUL\<rparr>,
                 NameCallback ''pantry'']\<rparr>"
  let ?e = "\<lparr>millis_1 = 0, millis_2 = 0, Time_now = 0, Time_isValid = False,
            Particle_connected = False\<rparr>"
  have r: "run ?h ?ops = Inr ?h'"
    by (simp add: run_eval)
  have nr: "SubscriptionRemoved \<notin> set ?ops"
    by simp
  from subscribe_once_per_removal [of ?h ?ops ?h' ?e] r nr
  show ?thesis
    by simp
qed

text \<open>
  C10. \<^verbatim>\<open>getName()\<close> never returns the null pointer, and \<^verbatim>\<open>hasName()\<close> is true exactly
  when the string it points to is non-empty. Before a record is installed \<^verbatim>\<open>getName()\<close>
  points to the empty string and \<^verbatim>\<open>getLastNameCheckTime()\<close> is 0; afterwards they return
  the record's name buffer and its \<open>lastCheck\<close>.
\<close>

theorem accessors_total:
  assumes "wf_helper h"
  shows "(\<exists>buf. getName h = Some buf \<and> (hasName h \<longleftrightarrow> c_str buf \<noteq> []))
       \<and> (data h = None \<longrightarrow> getName h = Some [NUL] \<and> c_str [NUL] = []
             \<and> getLastNameCheckTime h = 0)
       \<and> (\<forall>d. data h = Some d \<longrightarrow> getName h = Some (name d)
             \<and> getLastNameCheckTime h = lastCheck d)"
proof -
  have nz: "buf \<noteq> [] \<Longrightarrow> (buf ! 0 \<noteq> NUL) = (c_str buf \<noteq> [])" for buf
    by (cases buf) (simp_all add: c_str_def)
  show ?thesis
  proof (cases "data h")
    case None
    then show ?thesis
      by (simp add: getName_def hasName_def getLastNameCheckTime_def c_str_def)
  next
    case (Some d)
    with assms have "name d \<noteq> []"
      by (auto simp: wf_helper_def wf_data_def)
    with Some show ?thesis
      by (simp add: getName_def hasName_def getLastNameCheckTime_def nz)
  qed
qed

theorem accessors_total_witness:
  "getName DeviceNameHelper_new = Some [NUL]
   \<and> \<not> hasName DeviceNameHelper_new
   \<and> getLastNameCheckTime DeviceNameHelper_new = 0
   \<and> getName (DeviceNameHelper_new\<lparr>data := Some \<lparr>magic = 0x7787a2f2, size_d = 44, flags = 0,
        reserved = 0, lastCheck = 1000, name = ''kitchen'' @ replicate 25 NUL\<rparr>\<rparr>)
       = Some (''kitchen'' @ replicate 25 NUL)
   \<and> hasName (DeviceNameHelper_new\<lparr>data := Some \<lparr>magic = 0x7787a2f2, size_d = 44, flags = 0,
        reserved = 0, lastCheck = 1000, name = ''kitchen'' @ replicate 25 NUL\<rparr>\<rparr>)
   \<and> getLastNameCheckTime (DeviceNameHelper_new\<lparr>data := Some \<lparr>magic = 0x7787a2f2,
        size_d = 44, flags = 0, reserved = 0, lastCheck = 1000,
        name = ''kitchen'' @ replicate 25 NUL\<rparr>\<rparr>) = 1000"
proof -
  let ?d = "\<lparr>magic = 0x7787a2f2, size_d = 44, flags = 0,
        reserved = 0, lastCheck = 1000, name = ''kitchen'' @ replicate 25 NUL\<rparr>"
  let ?h = "DeviceNameHelper_new\<lparr>data := Some ?d\<rparr>"
  have w0: "wf_helper DeviceNameHelper_new" and w1: "wf_helper ?h"
    by (simp_all add: wf_helper_def wf_data_def DeviceNameHelper_new_def
        DEVICENAMEHELPER_MAX_NAME_LEN_def)
  have d0: "data DeviceNameHelper_new = None" and d1: "data ?h = Some ?d"
    by (simp_all add: DeviceNameHelper_new_def)
  from accessors_total [OF w0] accessors_total [OF w1] d0 d1
  show ?thesis
    by (auto simp: c_str_eval)
qed

end
